theory Spec2Isabelle
  imports
    Complex_Main
    "HOL-Library.AList"
    "HOL-Library.Char_ord"
    "HOL-Library.List_Lexorder"
    "HOL-Library.Multiset"
begin

section \<open>The conversation engine of the LLM chat client\<close>

text \<open>
  A shallow embedding of the session engine of \<^verbatim>\<open>llm_chat_client_pyqt6.py\<close>: the
  settings and conversation stores, the title and token helpers, the sampling parameters
  and the streaming worker. Module globals are fields of explicit state records, files are
  entries of an association list, raised exceptions are \<open>Inl\<close> values, and what the
  interpreter or a library decides (the clock, a fresh UUID, whether a file can be opened,
  \<open>float\<close> on a string, the tokenizer, the backend's stream) is a parameter.

  A Python \<open>str\<close> is a \<open>string\<close>, one \<open>char\<close> for one code point; code points above
  255 have no counterpart here.
\<close>

subsection \<open>Exceptions\<close>

text \<open>
  An exception is kept as the two things the program reads off it:
  \<^verbatim>\<open>type(e).__name__\<close> and \<^verbatim>\<open>str(e)\<close>.
\<close>

datatype exn = Exn (exn_type: string) (exn_str: string)

subsection \<open>Python values\<close>

text \<open>
  A Python float: a finite double, an infinity or NaN. A finite double is given by a
  real number, a literal such as \<^verbatim>\<open>0.9\<close> by the decimal it is written as. The
  functions below compare floats and never compute with them, so rounding plays no part.
\<close>

datatype pyfloat = Finite real | PosInf | NegInf | NaN

text \<open>The values that \<^verbatim>\<open>json.load\<close> can produce.\<close>

datatype pyval =
    PyNone
  | PyBool bool
  | PyInt int
  | PyFloat pyfloat
  | PyStr string
  | PyList "pyval list"
  | PyDict "(string \<times> pyval) list"

text \<open>\<^verbatim>\<open>type(v).__name__\<close>\<close>

fun type_name :: "pyval \<Rightarrow> string" where
  "type_name PyNone = ''NoneType''"
| "type_name (PyBool b) = ''bool''"
| "type_name (PyInt i) = ''int''"
| "type_name (PyFloat f) = ''float''"
| "type_name (PyStr s) = ''str''"
| "type_name (PyList xs) = ''list''"
| "type_name (PyDict kvs) = ''dict''"

text \<open>\<^verbatim>\<open>v.get(key, dflt)\<close>: only a dict has the method.\<close>

fun dict_get :: "pyval \<Rightarrow> string \<Rightarrow> pyval \<Rightarrow> exn + pyval" where
  "dict_get (PyDict kvs) key dflt =
     Inr (case map_of kvs key of None \<Rightarrow> dflt | Some v \<Rightarrow> v)"
| "dict_get v key dflt =
     Inl (Exn ''AttributeError''
            ([CHR 0x27] @ type_name v @ [CHR 0x27] @ '' object has no attribute ''
              @ [CHR 0x27] @ ''get'' @ [CHR 0x27]))"

subsection \<open>Messages and stored conversation records\<close>

text \<open>
  A message is a dict with string keys and string values, such as
  \<^verbatim>\<open>{"role": "user", "content": "hi"}\<close>; a key may be missing. \<open>map_of m k\<close> is
  \<^verbatim>\<open>m.get(k)\<close>.
\<close>

type_synonym message = "(string \<times> string) list"

text \<open>
  The JSON object of one conversation file. A file written by another hand may lack a
  key, which is why the program reads with \<^verbatim>\<open>.get\<close>; a missing key is \<open>None\<close>.
  The values are of the types that \<^verbatim>\<open>save_conversation\<close> writes.
\<close>

record conv_data =
  rec_id :: "string option"
  rec_title :: "string option"
  rec_messages :: "message list option"
  rec_timestamp :: "string option"

text \<open>
  What \<^verbatim>\<open>json.load\<close> returns from a conversation file: such an object, or any other
  JSON value, for instance the list \<^verbatim>\<open>[]\<close> or an object whose timestamp is a number
  or \<^verbatim>\<open>null\<close>.
\<close>

datatype json_doc = Conversation conv_data | Other_json pyval

text \<open>
  What reading a file gives: the value that \<^verbatim>\<open>json.load\<close> returns, or the exception
  that \<^verbatim>\<open>open\<close> or \<^verbatim>\<open>json.load\<close> raises on it.
\<close>

datatype file_content = Json json_doc | Unreadable exn

text \<open>
  \<^verbatim>\<open>CONVERSATIONS_DIR\<close>: the files below it, keyed by their path relative to it, in the
  order in which the operating system enumerates them.
\<close>

type_synonym directory = "(string \<times> file_content) list"

text \<open>
  \<^verbatim>\<open>CONVERSATIONS_DIR / f"{conv_id}.json"\<close>, for an id that is a plain file name. What
  \<^verbatim>\<open>pathlib\<close> makes of an id that contains a path separator is not modelled;
  \<^verbatim>\<open>save_conversation\<close> and \<^verbatim>\<open>load_conversation\<close> build the path by the same
  expression.
\<close>

definition conv_path :: "string \<Rightarrow> string" where
  "conv_path conv_id = conv_id @ ''.json''"

text \<open>
  \<^verbatim>\<open>save_conversation(conv_id, title, msgs)\<close>. \<open>open_w\<close> tells whether opening a path
  for writing raises, \<open>now\<close> is \<^verbatim>\<open>datetime.now().isoformat()\<close>. A falsy id (\<^verbatim>\<open>None\<close>
  or the empty string) returns at once. The text that \<^verbatim>\<open>json.dump\<close> writes is given by
  the object that \<^verbatim>\<open>json.load\<close> reads back from it; for strings, and lists and dicts
  of strings, that is the object written.
\<close>

definition save_conversation ::
  "(string \<Rightarrow> exn option) \<Rightarrow> string \<Rightarrow> directory \<Rightarrow>
     string option \<Rightarrow> string \<Rightarrow> message list \<Rightarrow> exn + directory" where
  "save_conversation open_w now dir conv_id title msgs =
     (case conv_id of
        None \<Rightarrow> Inr dir
      | Some cid \<Rightarrow>
          if cid = [] then Inr dir
          else
            let filepath = conv_path cid;
                data = \<lparr>rec_id = Some cid, rec_title = Some title,
                        rec_messages = Some msgs, rec_timestamp = Some now\<rparr>
            in (case open_w filepath of
                  Some e \<Rightarrow> Inl e
                | None \<Rightarrow> Inr (AList.update filepath (Json (Conversation data)) dir)))"

text \<open>
  \<^verbatim>\<open>load_conversation(conv_id)\<close>: \<^verbatim>\<open>None\<close> when the file does not exist, the
  parsed value when it does, and the exception of the read when it cannot be parsed.
\<close>

definition load_conversation :: "directory \<Rightarrow> string \<Rightarrow> exn + json_doc option" where
  "load_conversation dir conv_id =
     (case map_of dir (conv_path conv_id) of
        None \<Rightarrow> Inr None
      | Some (Json data) \<Rightarrow> Inr (Some data)
      | Some (Unreadable e) \<Rightarrow> Inl e)"


text \<open>
  \<^verbatim>\<open>CONVERSATIONS_DIR.glob("*.json")\<close>: the direct children of the directory whose name
  ends in \<^verbatim>\<open>.json\<close>.
\<close>

definition glob_json :: "string \<Rightarrow> bool" where
  "glob_json name =
     (CHR ''/'' \<notin> set name \<and> drop (length name - 5) name = ''.json'')"

text \<open>
  The loop of \<^verbatim>\<open>list_conversations\<close>: each file that is read and parsed is appended to
  \<open>conversations\<close>, whatever value it holds; each one that raises is passed over
  (\<^verbatim>\<open>except Exception: continue\<close>).
\<close>

fun read_conversations :: "json_doc list \<Rightarrow> directory \<Rightarrow> json_doc list" where
  "read_conversations conversations [] = conversations"
| "read_conversations conversations ((filepath, Json data) # rest) =
     read_conversations (conversations @ [data]) rest"
| "read_conversations conversations ((filepath, Unreadable e) # rest) =
     read_conversations conversations rest"

text \<open>
  The sort key \<^verbatim>\<open>lambda x: x.get("timestamp", "")\<close>. It raises on a value that is not a
  dict, and returns whatever value the key \<^verbatim>\<open>timestamp\<close> holds.
\<close>

fun timestamp_key :: "json_doc \<Rightarrow> exn + pyval" where
  "timestamp_key (Conversation x) =
     Inr (case rec_timestamp x of None \<Rightarrow> PyStr [] | Some t \<Rightarrow> PyStr t)"
| "timestamp_key (Other_json x) = dict_get x ''timestamp'' (PyStr [])"

text \<open>
  \<^verbatim>\<open>list.sort\<close> first calls the key function on every item, in list order; the first
  call that raises ends the sort with its exception.
\<close>

fun key_values :: "json_doc list \<Rightarrow> exn + pyval list" where
  "key_values [] = Inr []"
| "key_values (x # xs) =
     (case timestamp_key x of
        Inl e \<Rightarrow> Inl e
      | Inr k \<Rightarrow> (case key_values xs of Inl e \<Rightarrow> Inl e | Inr ks \<Rightarrow> Inr (k # ks)))"

text \<open>The keys as strings, when every one of them is a \<^verbatim>\<open>str\<close>.\<close>

fun str_keys :: "pyval list \<Rightarrow> string list option" where
  "str_keys [] = Some []"
| "str_keys (PyStr s # ks) = (case str_keys ks of None \<Rightarrow> None | Some ss \<Rightarrow> Some (s # ss))"
| "str_keys (k # ks) = None"

text \<open>
  \<^verbatim>\<open>list.sort(key=..., reverse=True)\<close> on string keys is the stable ascending sort of the
  reversed list, reversed again; strings compare lexicographically by code point.
\<close>

definition sort_reverse :: "('a \<Rightarrow> string) \<Rightarrow> 'a list \<Rightarrow> 'a list" where
  "sort_reverse key xs = rev (sort_key key (rev xs))"

text \<open>
  \<^verbatim>\<open>list_conversations()\<close>. The sort is outside the \<^verbatim>\<open>try\<close>, so an exception of the
  key function leaves the function. When the keys are not all strings and there is more
  than one item, the outcome is that of the interpreter's comparisons between the keys
  (a TypeError for \<^verbatim>\<open>None\<close>, or for a string against a number): \<open>sort_other\<close>.
\<close>

definition list_conversations ::
  "(pyval list \<Rightarrow> json_doc list \<Rightarrow> exn + json_doc list) \<Rightarrow> directory \<Rightarrow>
     exn + json_doc list" where
  "list_conversations sort_other dir =
     (let conversations =
            read_conversations [] (filter (\<lambda>(name, content). glob_json name) dir)
      in (case key_values conversations of
            Inl e \<Rightarrow> Inl e
          | Inr keys \<Rightarrow>
              (case str_keys keys of
                 Some strs \<Rightarrow> Inr (map snd (sort_reverse fst (zip strs conversations)))
               | None \<Rightarrow>
                   if length conversations \<le> 1 then Inr conversations
                   else sort_other keys conversations)))"

subsection \<open>Token estimate\<close>

text \<open>
  \<^verbatim>\<open>estimate_tokens(text)\<close>. The tokenizer is the \<^verbatim>\<open>tiktoken\<close> library's: \<open>encode text\<close>
  stands for \<^verbatim>\<open>tiktoken.get_encoding("cl100k_base").encode(text)\<close>, which returns the
  tokens or raises. When the library is absent, or the call raises, the estimate is
  \<^verbatim>\<open>len(text) // 4\<close>.
\<close>

definition estimate_tokens :: "bool \<Rightarrow> (string \<Rightarrow> exn + 'tok list) \<Rightarrow> string \<Rightarrow> int" where
  "estimate_tokens TIKTOKEN_AVAILABLE encode text =
     (if TIKTOKEN_AVAILABLE then
        (case encode text of
           Inr tokens \<Rightarrow> int (length tokens)
         | Inl e \<Rightarrow> int (length text) div 4)
      else int (length text) div 4)"

subsection \<open>Conversation title\<close>

text \<open>
  \<^verbatim>\<open>str.isspace\<close> on one code point below 256: tab to carriage return, the four
  separators, space, next line and no-break space.
\<close>

definition isspace :: "char \<Rightarrow> bool" where
  "isspace c = ((of_char c :: nat) \<in> {9, 10, 11, 12, 13, 28, 29, 30, 31, 32, 133, 160})"

text \<open>\<^verbatim>\<open>s.strip()\<close>: leading and trailing whitespace removed.\<close>

definition strip :: "string \<Rightarrow> string" where
  "strip s = rev (dropWhile isspace (rev (dropWhile isspace s)))"

text \<open>
  \<^verbatim>\<open>get_conversation_title(msgs)\<close>: the first message whose role is \<^verbatim>\<open>"user"\<close> decides.
  The last line of that branch, \<^verbatim>\<open>return title or "New Chat"\<close>, gives the sentinel for an
  empty title.
\<close>

fun get_conversation_title :: "message list \<Rightarrow> string" where
  "get_conversation_title [] = ''New Chat''"
| "get_conversation_title (msg # msgs) =
     (if map_of msg ''role'' = Some ''user'' then
        let content = (case map_of msg ''content'' of None \<Rightarrow> [] | Some c \<Rightarrow> c);
            title = strip (take 40 content);
            title = (if length content > 40 then title @ ''...'' else title)
        in if title = [] then ''New Chat'' else title
      else get_conversation_title msgs)"

text \<open>
  The globals of the running session, and
  \<^verbatim>\<open>LLMChatClient.auto_save_current_conversation\<close> on them. \<open>fresh_id\<close> is what
  \<^verbatim>\<open>generate_conversation_id()\<close> would return. The globals are assigned before the
  file is written, so the new globals are returned also when the write raises. The
  refresh of the token label that follows the save is display only.
\<close>

record session =
  current_conversation_id :: "string option"
  current_conversation_title :: string
  messages :: "message list"

definition auto_save_current_conversation ::
  "(string \<Rightarrow> exn option) \<Rightarrow> string \<Rightarrow> string \<Rightarrow> session \<Rightarrow> directory \<Rightarrow>
     session \<times> (exn + directory)" where
  "auto_save_current_conversation open_w now fresh_id s dir =
     (let s1 = (if current_conversation_id s = None \<or> current_conversation_id s = Some []
                then s\<lparr>current_conversation_id := Some fresh_id\<rparr> else s);
          s2 = (if current_conversation_title s1 = ''New Chat''
                then s1\<lparr>current_conversation_title := get_conversation_title (messages s1)\<rparr>
                else s1)
      in (s2, save_conversation open_w now dir (current_conversation_id s2)
                (current_conversation_title s2) (messages s2)))"

subsection \<open>Sampling settings\<close>

definition DEFAULT_TEMPERATURE :: pyval where
  "DEFAULT_TEMPERATURE = PyFloat (Finite (9 / 10))"

definition DEFAULT_TOP_P :: pyval where
  "DEFAULT_TOP_P = PyNone"

record sampling =
  current_temperature :: pyval
  current_top_p :: pyval
  current_sampling_mode :: pyval

text \<open>The three globals as the module sets them when it is imported.\<close>

definition initial_sampling :: sampling where
  "initial_sampling =
     \<lparr>current_temperature = DEFAULT_TEMPERATURE, current_top_p = DEFAULT_TOP_P,
      current_sampling_mode = PyStr ''temperature''\<rparr>"

text \<open>
  The settings file: \<open>None\<close> when \<^verbatim>\<open>SETTINGS_FILE.exists()\<close> is false, otherwise what
  \<^verbatim>\<open>open\<close> and \<^verbatim>\<open>json.load\<close> give, a value or an exception.

  The body of the \<^verbatim>\<open>try\<close> in \<^verbatim>\<open>load_settings\<close> assigns the globals one by one; it
  returns the globals as they are when it ends, with the exception that ended it, if any.
\<close>

type_synonym settings_file = "(exn + pyval) option"

definition load_settings_try :: "exn + pyval \<Rightarrow> sampling \<Rightarrow> sampling \<times> exn option" where
  "load_settings_try f g =
     (case f of
        Inl e \<Rightarrow> (g, Some e)
      | Inr settings \<Rightarrow>
          (case dict_get settings ''temperature'' DEFAULT_TEMPERATURE of
             Inl e \<Rightarrow> (g, Some e)
           | Inr t \<Rightarrow>
               let g1 = g\<lparr>current_temperature := t\<rparr> in
               (case dict_get settings ''top_p'' DEFAULT_TOP_P of
                  Inl e \<Rightarrow> (g1, Some e)
                | Inr p \<Rightarrow>
                    let g2 = g1\<lparr>current_top_p := p\<rparr> in
                    (case dict_get settings ''sampling_mode'' (PyStr ''temperature'') of
                       Inl e \<Rightarrow> (g2, Some e)
                     | Inr m \<Rightarrow> (g2\<lparr>current_sampling_mode := m\<rparr>, None)))))"

text \<open>
  \<^verbatim>\<open>load_settings()\<close>: \<^verbatim>\<open>except Exception: pass\<close> drops the exception and keeps the
  globals.
\<close>

definition load_settings :: "settings_file \<Rightarrow> sampling \<Rightarrow> sampling" where
  "load_settings file g =
     (case file of
        None \<Rightarrow> g
      | Some f \<Rightarrow> fst (load_settings_try f g))"


subsection \<open>Sampling parameters of a request\<close>

text \<open>
  Comparison of floats: every comparison with NaN is false. \<^verbatim>\<open>min(a, b)\<close> is \<open>a\<close>
  unless \<open>b < a\<close>, and \<^verbatim>\<open>max(a, b)\<close> is \<open>a\<close> unless \<open>b > a\<close>.
\<close>

fun fl_less :: "pyfloat \<Rightarrow> pyfloat \<Rightarrow> bool" where
  "fl_less NaN y = False"
| "fl_less x NaN = False"
| "fl_less (Finite a) (Finite b) = (a < b)"
| "fl_less (Finite a) PosInf = True"
| "fl_less (Finite a) NegInf = False"
| "fl_less PosInf y = False"
| "fl_less NegInf NegInf = False"
| "fl_less NegInf y = True"

definition py_min :: "pyfloat \<Rightarrow> pyfloat \<Rightarrow> pyfloat" where
  "py_min a b = (if fl_less b a then b else a)"

definition py_max :: "pyfloat \<Rightarrow> pyfloat \<Rightarrow> pyfloat" where
  "py_max a b = (if fl_less a b then b else a)"

text \<open>
  \<^verbatim>\<open>float(x)\<close>, with \<open>None\<close> when it raises. A float is itself, a bool is 0.0 or 1.0.
  An int is converted unless it rounds beyond the largest double (OverflowError); the
  double it rounds to is given here by the integer's own value, which compares with 0.0
  and 1.0 as the double does. A string is parsed by the interpreter, \<open>float_of_str\<close>
  (ValueError when it does not parse). \<^verbatim>\<open>None\<close>, a list and a dict give TypeError.
\<close>

fun py_float :: "(string \<Rightarrow> pyfloat option) \<Rightarrow> pyval \<Rightarrow> pyfloat option" where
  "py_float float_of_str (PyFloat f) = Some f"
| "py_float float_of_str (PyBool b) = Some (Finite (if b then 1 else 0))"
| "py_float float_of_str (PyInt i) =
     (if \<bar>i\<bar> < 2 ^ 1024 - 2 ^ 970 then Some (Finite (of_int i)) else None)"
| "py_float float_of_str (PyStr s) = float_of_str s"
| "py_float float_of_str PyNone = None"
| "py_float float_of_str (PyList xs) = None"
| "py_float float_of_str (PyDict kvs) = None"

text \<open>
  The inner \<^verbatim>\<open>clamp(x, lo, hi)\<close> of \<^verbatim>\<open>_sanitize_sampling\<close>:
  \<^verbatim>\<open>max(lo, min(hi, float(x)))\<close>, or \<^verbatim>\<open>None\<close> when that raises.
\<close>

definition clamp ::
  "(string \<Rightarrow> pyfloat option) \<Rightarrow> pyval \<Rightarrow> pyfloat \<Rightarrow> pyfloat \<Rightarrow> pyfloat option" where
  "clamp float_of_str x lo hi =
     (case py_float float_of_str x of
        None \<Rightarrow> None
      | Some f \<Rightarrow> Some (py_max lo (py_min hi f)))"

text \<open>
  \<^verbatim>\<open>_sanitize_sampling(temperature, top_p)\<close>; in a result \<open>None\<close> is Python's
  \<^verbatim>\<open>None\<close>.
\<close>

definition sanitize_sampling ::
  "(string \<Rightarrow> pyfloat option) \<Rightarrow> pyval \<Rightarrow> pyval \<Rightarrow> pyfloat option \<times> pyfloat option" where
  "sanitize_sampling float_of_str temperature top_p =
     (let t = (if temperature \<noteq> PyNone
               then clamp float_of_str temperature (Finite 0) (Finite 1) else None);
          p = (if top_p \<noteq> PyNone
               then clamp float_of_str top_p (Finite 0) (Finite 1) else None);
          p = (if t \<noteq> None \<and> p \<noteq> None then None else p)
      in (t, p))"

text \<open>
  The keyword arguments of \<^verbatim>\<open>messages.create\<close>; an optional key that is not set is
  \<open>None\<close>.
\<close>

record create_kwargs =
  kw_model :: string
  kw_system :: string
  kw_messages :: "message list"
  kw_max_tokens :: int
  kw_temperature :: "pyfloat option"
  kw_top_p :: "pyfloat option"

text \<open>\<^verbatim>\<open>_create_args(model_name, system, convo)\<close>, reading the sampling globals \<open>g\<close>.\<close>

definition create_args ::
  "(string \<Rightarrow> pyfloat option) \<Rightarrow> sampling \<Rightarrow> string \<Rightarrow> string \<Rightarrow> message list \<Rightarrow>
     create_kwargs" where
  "create_args float_of_str g model_name system convo =
     (let temp = (if current_sampling_mode g = PyStr ''temperature''
                  then current_temperature g else PyNone);
          top_p_val = (if current_sampling_mode g = PyStr ''top_p''
                       then current_top_p g else PyNone);
          (t, p) = sanitize_sampling float_of_str temp top_p_val;
          kwargs = \<lparr>kw_model = model_name, kw_system = system, kw_messages = convo,
                    kw_max_tokens = 4096, kw_temperature = None, kw_top_p = None\<rparr>
      in if t \<noteq> None then kwargs\<lparr>kw_temperature := t\<rparr>
         else if p \<noteq> None then kwargs\<lparr>kw_top_p := p\<rparr>
         else kwargs)"

subsection \<open>The streaming worker\<close>

definition MODEL :: string where
  "MODEL = ''claude-sonnet-4-20250514''"

definition SYSTEM_PROMPT :: string where
  "SYSTEM_PROMPT =
     ''You are a helpful AI assistant. Provide clear, concise, and accurate responses.''"

text \<open>The signals of \<^verbatim>\<open>StreamSignals\<close>, each with the string it carries.\<close>

datatype signal = Text_chunk string | Finished string | Error string

fun is_terminal :: "signal \<Rightarrow> bool" where
  "is_terminal (Text_chunk text) = False"
| "is_terminal (Finished out) = True"
| "is_terminal (Error error_msg) = True"

definition KeyError :: "string \<Rightarrow> exn" where
  "KeyError key = Exn ''KeyError'' ([CHR 0x27] @ key @ [CHR 0x27])"

definition role_msg :: "string \<Rightarrow> string \<Rightarrow> message" where
  "role_msg role content = [(''role'', role), (''content'', content)]"

text \<open>
  \<^verbatim>\<open>[m["content"] for m in messages_list if m["role"] == "system"]\<close>: a subscript on a
  missing key raises KeyError, at the first message where that happens.
\<close>

fun system_contents :: "message list \<Rightarrow> exn + string list" where
  "system_contents [] = Inr []"
| "system_contents (m # ms) =
     (case map_of m ''role'' of
        None \<Rightarrow> Inl (KeyError ''role'')
      | Some role \<Rightarrow>
          if role = ''system'' then
            (case map_of m ''content'' of
               None \<Rightarrow> Inl (KeyError ''content'')
             | Some content \<Rightarrow>
                 (case system_contents ms of
                    Inl e \<Rightarrow> Inl e
                  | Inr contents \<Rightarrow> Inr (content # contents)))
          else system_contents ms)"

text \<open>\<^verbatim>\<open>[m for m in messages_list if m["role"] in ("user", "assistant")]\<close>\<close>

fun user_assistant :: "message list \<Rightarrow> exn + message list" where
  "user_assistant [] = Inr []"
| "user_assistant (m # ms) =
     (case map_of m ''role'' of
        None \<Rightarrow> Inl (KeyError ''role'')
      | Some role \<Rightarrow>
          (case user_assistant ms of
             Inl e \<Rightarrow> Inl e
           | Inr convo \<Rightarrow>
               Inr (if role = ''user'' \<or> role = ''assistant'' then m # convo else convo)))"

text \<open>\<^verbatim>\<open>sep.join(parts)\<close>\<close>

fun join :: "string \<Rightarrow> string list \<Rightarrow> string" where
  "join sep [] = []"
| "join sep [x] = x"
| "join sep (x # y # ys) = x @ sep @ join sep (y # ys)"

text \<open>
  The three lines of \<^verbatim>\<open>run\<close> that build the request from the message list: the system
  prompt (the default one when the joined text is empty), the conversation, the keyword
  arguments.
\<close>

definition build_request ::
  "(string \<Rightarrow> pyfloat option) \<Rightarrow> sampling \<Rightarrow> message list \<Rightarrow> exn + create_kwargs" where
  "build_request float_of_str g messages_list =
     (case system_contents messages_list of
        Inl e \<Rightarrow> Inl e
      | Inr contents \<Rightarrow>
          let joined = join [CHR 0x0A] contents;
              system = (if joined = [] then SYSTEM_PROMPT else joined)
          in (case user_assistant messages_list of
                Inl e \<Rightarrow> Inl e
              | Inr convo \<Rightarrow> Inr (create_args float_of_str g MODEL system convo)))"

text \<open>
  The backend, \<^verbatim>\<open>client.messages.stream(**kwargs)\<close> read through its
  \<^verbatim>\<open>text_stream\<close>: the deltas it yields, in order, and then either the end of the
  stream (\<open>None\<close>) or the exception that it raises. A failure to open the stream is an
  exception after no delta. The stream is taken to be finite, as the interface of the
  backend has it; raised values are instances of \<^verbatim>\<open>Exception\<close>.
\<close>

type_synonym backend = "create_kwargs \<Rightarrow> string list \<times> exn option"

text \<open>
  The state that \<^verbatim>\<open>run\<close> changes: the message list it was given (the session's list
  itself, not a copy) and the signals emitted so far, oldest first.
\<close>

record worker =
  messages_list :: "message list"
  emitted :: "signal list"

text \<open>
  The \<^verbatim>\<open>for text in stream.text_stream\<close> loop: each delta is added to \<open>out\<close> and
  emitted as a \<^verbatim>\<open>text_chunk\<close>.
\<close>

fun stream_loop :: "string \<Rightarrow> signal list \<Rightarrow> string list \<Rightarrow> string \<times> signal list" where
  "stream_loop out sigs [] = (out, sigs)"
| "stream_loop out sigs (text # rest) =
     stream_loop (out @ text) (sigs @ [Text_chunk text]) rest"

text \<open>
  The body of the \<^verbatim>\<open>try\<close> in \<^verbatim>\<open>StreamWorker.run\<close>: the state when the block ends, and
  the exception that ended it, if any.
\<close>

definition run_try ::
  "(string \<Rightarrow> pyfloat option) \<Rightarrow> sampling \<Rightarrow> backend \<Rightarrow> string \<Rightarrow> worker \<Rightarrow>
     worker \<times> exn option" where
  "run_try float_of_str g stream user_text w =
     (let w1 = w\<lparr>messages_list := messages_list w @ [role_msg ''user'' user_text]\<rparr>
      in (case build_request float_of_str g (messages_list w1) of
            Inl e \<Rightarrow> (w1, Some e)
          | Inr kwargs \<Rightarrow>
              let (deltas, ending) = stream kwargs;
                  (out, sigs) = stream_loop [] (emitted w1) deltas;
                  w2 = w1\<lparr>emitted := sigs\<rparr>
              in (case ending of
                    Some e \<Rightarrow> (w2, Some e)
                  | None \<Rightarrow>
                      let out = (if out = [] then ''(Empty response)'' else out);
                          w3 = w2\<lparr>messages_list :=
                                    messages_list w2 @ [role_msg ''assistant'' out]\<rparr>
                      in (w3\<lparr>emitted := emitted w3 @ [Finished out]\<rparr>, None))))"

text \<open>\<^verbatim>\<open>f"(API error: {type(e).__name__}: {e})"\<close>\<close>

definition error_msg :: "exn \<Rightarrow> string" where
  "error_msg e = ''(API error: '' @ exn_type e @ '': '' @ exn_str e @ '')''"

text \<open>
  \<^verbatim>\<open>StreamWorker.run\<close>: the \<^verbatim>\<open>try\<close> block, and the \<^verbatim>\<open>except Exception\<close> handler
  when the block raised.
\<close>

definition run ::
  "(string \<Rightarrow> pyfloat option) \<Rightarrow> sampling \<Rightarrow> backend \<Rightarrow> string \<Rightarrow> worker \<Rightarrow> worker" where
  "run float_of_str g stream user_text w =
     (case run_try float_of_str g stream user_text w of
        (w', None) \<Rightarrow> w'
      | (w', Some e) \<Rightarrow>
          w'\<lparr>messages_list := messages_list w' @ [role_msg ''assistant'' (error_msg e)],
             emitted := emitted w' @ [Error (error_msg e)]\<rparr>)"

text \<open>
  A worker as \<^verbatim>\<open>StreamWorker(text, messages)\<close> constructs it: the list it is handed and
  a fresh \<^verbatim>\<open>StreamSignals\<close>, on which nothing has been emitted.
\<close>

definition StreamWorker :: "message list \<Rightarrow> worker" where
  "StreamWorker msgs = \<lparr>messages_list = msgs, emitted = []\<rparr>"

subsection \<open>Instances of the parameters, for the examples\<close>

text \<open>A file system on which every open for writing succeeds.\<close>

definition always_opens :: "string \<Rightarrow> exn option" where
  "always_opens path = None"

text \<open>The record that saving a one-message conversation under \<open>cid\<close> at \<open>now\<close> writes.\<close>

definition example_record :: "string \<Rightarrow> string \<Rightarrow> conv_data" where
  "example_record cid now =
     \<lparr>rec_id = Some cid, rec_title = Some ''hi'',
      rec_messages = Some [[(''role'', ''user''), (''content'', ''hi'')]],
      rec_timestamp = Some now\<rparr>"

text \<open>
  A stand-in for the tokenizer: one token for each character, and, as \<^verbatim>\<open>tiktoken\<close> does
  by default for the text of a special token, a ValueError for a text that contains
  \<^verbatim>\<open><|endoftext|>\<close>. Its token count never decreases under concatenation where it
  succeeds.
\<close>

fun contains :: "string \<Rightarrow> string \<Rightarrow> bool" where
  "contains needle [] = (needle = [])"
| "contains needle (c # cs) = (take (length needle) (c # cs) = needle \<or> contains needle cs)"

definition byte_tokenizer :: "string \<Rightarrow> exn + char list" where
  "byte_tokenizer text =
     (if contains ''<|endoftext|>'' text
      then Inl (Exn ''ValueError'' ''Encountered text corresponding to disallowed special token'')
      else Inr text)"

text \<open>A conversation of four messages whose first user message is longer than 40 characters.\<close>

definition example_messages :: "message list" where
  "example_messages =
     [role_msg ''system'' SYSTEM_PROMPT,
      role_msg ''user'' ''  Tell me about the history of the Roman Empire, please.'',
      role_msg ''assistant'' ''Gladly.'',
      role_msg ''user'' ''Thanks'']"

text \<open>
  \<^verbatim>\<open>float\<close> on the two strings of the examples: \<^verbatim>\<open>"0.25"\<close> parses, anything else is
  taken not to.
\<close>

definition float_of_str_example :: "string \<Rightarrow> pyfloat option" where
  "float_of_str_example s = (if s = ''0.25'' then Some (Finite (1 / 4)) else None)"

text \<open>
  The request that \<^verbatim>\<open>run\<close> builds for the user text \<^verbatim>\<open>hi\<close> in a new chat under the
  initial settings, and a backend that yields \<^verbatim>\<open>Hel\<close> and then loses the connection.
\<close>

definition example_request :: create_kwargs where
  "example_request =
     \<lparr>kw_model = MODEL, kw_system = SYSTEM_PROMPT, kw_messages = [role_msg ''user'' ''hi''],
      kw_max_tokens = 4096, kw_temperature = Some (Finite (9 / 10)), kw_top_p = None\<rparr>"

definition failing_stream :: backend where
  "failing_stream kwargs = ([''Hel''], Some (Exn ''APIConnectionError'' ''Connection error.''))"

subsection \<open>Notions used in the statements\<close>


text \<open>What \<^verbatim>\<open>run\<close> makes of the accumulated text \<open>out\<close> when the stream has ended.\<close>

definition final_text :: "string \<Rightarrow> string" where
  "final_text out = (if out = [] then ''(Empty response)'' else out)"

section \<open>Properties\<close>

subsection \<open>The conversation store\<close>

lemma save_conversation_Inr:
  assumes "cid \<noteq> []"
  shows "save_conversation open_w now dir (Some cid) title msgs = Inr dir' \<longleftrightarrow>
           open_w (conv_path cid) = None \<and>
           dir' = AList.update (conv_path cid)
                    (Json (Conversation \<lparr>rec_id = Some cid, rec_title = Some title,
                            rec_messages = Some msgs, rec_timestamp = Some now\<rparr>)) dir"
  using assms by (auto simp: save_conversation_def Let_def split: option.splits)

lemma conv_path_inject: "conv_path a = conv_path b \<longleftrightarrow> a = b"
  by (simp add: conv_path_def)

lemma glob_json_conv_path: "glob_json (conv_path cid) \<longleftrightarrow> CHR ''/'' \<notin> set cid"
  by (simp add: glob_json_def conv_path_def)

lemma read_conversations_append:
  "read_conversations acc dir = acc @ [data. (name, Json data) \<leftarrow> dir]"
  by (induction acc dir rule: read_conversations.induct) auto

lemma mset_sort_reverse: "mset (sort_reverse key xs) = mset xs"
  by (simp add: sort_reverse_def)

lemma sorted_sort_reverse: "sorted (rev (map key (sort_reverse key xs)))"
  by (simp add: sort_reverse_def rev_map [symmetric])

lemma readable_filter:
  "[data. (name, Json data) \<leftarrow> filter (\<lambda>(name, content). glob_json name) dir]
     = [data. (name, Json data) \<leftarrow> dir, glob_json name]"
  by (induction dir) (auto split: file_content.splits)

lemma load_after_update:
  "load_conversation (AList.update (conv_path cid) (Json data) dir) cid = Inr (Some data)"
  by (simp add: load_conversation_def update_conv')

text \<open>
  C8, as amended. A conversation with a non-empty id whose save returned normally is
  loaded back with the id, title and message sequence that were saved, and with the clock
  reading of that save as its timestamp. A second save of the same id, title and
  messages leaves one record under the id, equal to the first in id, title and messages
  and carrying the clock reading of the second save; the directory is then what a single
  save at the second reading gives, and it is unchanged when the two readings are equal.
  Loading an id that has no file returns \<^verbatim>\<open>None\<close> and does not raise.
\<close>

theorem save_load_round_trip:
  "(cid \<noteq> [] \<and> save_conversation open_w now dir (Some cid) title msgs = Inr dir' \<longrightarrow>
      load_conversation dir' cid =
        Inr (Some (Conversation \<lparr>rec_id = Some cid, rec_title = Some title,
                   rec_messages = Some msgs, rec_timestamp = Some now\<rparr>))) \<and>
   (cid \<noteq> [] \<and> save_conversation open_w now dir (Some cid) title msgs = Inr dir' \<and>
    save_conversation open_w now' dir' (Some cid) title msgs = Inr dir'' \<longrightarrow>
      load_conversation dir'' cid =
        Inr (Some (Conversation \<lparr>rec_id = Some cid, rec_title = Some title,
                   rec_messages = Some msgs, rec_timestamp = Some now'\<rparr>)) \<and>
      save_conversation open_w now' dir (Some cid) title msgs = Inr dir'' \<and>
      (now' = now \<longrightarrow> dir'' = dir')) \<and>
   (map_of dir (conv_path cid) = None \<longrightarrow> load_conversation dir cid = Inr None)"
proof (intro conjI impI)
  assume "cid \<noteq> [] \<and> save_conversation open_w now dir (Some cid) title msgs = Inr dir'"
  then show "load_conversation dir' cid =
        Inr (Some (Conversation \<lparr>rec_id = Some cid, rec_title = Some title,
                   rec_messages = Some msgs, rec_timestamp = Some now\<rparr>))"
    by (auto simp: save_conversation_Inr load_after_update)
next
  assume a: "cid \<noteq> [] \<and> save_conversation open_w now dir (Some cid) title msgs = Inr dir' \<and>
    save_conversation open_w now' dir' (Some cid) title msgs = Inr dir''"
  then show "load_conversation dir'' cid =
        Inr (Some (Conversation \<lparr>rec_id = Some cid, rec_title = Some title,
                   rec_messages = Some msgs, rec_timestamp = Some now'\<rparr>))"
    by (auto simp: save_conversation_Inr load_after_update)
  from a show "save_conversation open_w now' dir (Some cid) title msgs = Inr dir''"
    by (auto simp: save_conversation_Inr)
  assume "now' = now"
  with a show "dir'' = dir'"
    by (auto simp: save_conversation_Inr)
next
  assume "map_of dir (conv_path cid) = None"
  then show "load_conversation dir cid = Inr None"
    by (simp add: load_conversation_def)
qed

text \<open>
  The witness of C8: a save of \<^verbatim>\<open>c1\<close> into an empty directory, a second save seven
  seconds later, the load of the result, a second save at the clock reading of the first,
  and the load of an id that was never saved.
\<close>

theorem save_load_round_trip_witness:
  "''c1'' \<noteq> [] \<and>
   save_conversation always_opens ''2024-05-01T10:00:00'' [] (Some ''c1'') ''hi''
       [[(''role'', ''user''), (''content'', ''hi'')]]
     = Inr [(''c1.json'', Json (Conversation \<lparr>rec_id = Some ''c1'', rec_title = Some ''hi'',
               rec_messages = Some [[(''role'', ''user''), (''content'', ''hi'')]],
               rec_timestamp = Some ''2024-05-01T10:00:00''\<rparr>))] \<and>
   save_conversation always_opens ''2024-05-01T10:00:07''
       [(''c1.json'', Json (Conversation \<lparr>rec_id = Some ''c1'', rec_title = Some ''hi'',
               rec_messages = Some [[(''role'', ''user''), (''content'', ''hi'')]],
               rec_timestamp = Some ''2024-05-01T10:00:00''\<rparr>))]
       (Some ''c1'') ''hi'' [[(''role'', ''user''), (''content'', ''hi'')]]
     = Inr [(''c1.json'', Json (Conversation \<lparr>rec_id = Some ''c1'', rec_title = Some ''hi'',
               rec_messages = Some [[(''role'', ''user''), (''content'', ''hi'')]],
               rec_timestamp = Some ''2024-05-01T10:00:07''\<rparr>))] \<and>
   load_conversation
       [(''c1.json'', Json (Conversation \<lparr>rec_id = Some ''c1'', rec_title = Some ''hi'',
               rec_messages = Some [[(''role'', ''user''), (''content'', ''hi'')]],
               rec_timestamp = Some ''2024-05-01T10:00:07''\<rparr>))] ''c1''
     = Inr (Some (Conversation \<lparr>rec_id = Some ''c1'', rec_title = Some ''hi'',
               rec_messages = Some [[(''role'', ''user''), (''content'', ''hi'')]],
               rec_timestamp = Some ''2024-05-01T10:00:07''\<rparr>)) \<and>
   save_conversation always_opens ''2024-05-01T10:00:00''
       [(''c1.json'', Json (Conversation \<lparr>rec_id = Some ''c1'', rec_title = Some ''hi'',
               rec_messages = Some [[(''role'', ''user''), (''content'', ''hi'')]],
               rec_timestamp = Some ''2024-05-01T10:00:00''\<rparr>))]
       (Some ''c1'') ''hi'' [[(''role'', ''user''), (''content'', ''hi'')]]
     = Inr [(''c1.json'', Json (Conversation \<lparr>rec_id = Some ''c1'', rec_title = Some ''hi'',
               rec_messages = Some [[(''role'', ''user''), (''content'', ''hi'')]],
               rec_timestamp = Some ''2024-05-01T10:00:00''\<rparr>))] \<and>
   map_of ([] :: directory) (conv_path ''c2'') = None \<and>
   load_conversation [] ''c2'' = Inr None"
proof -
  let ?m = "[[(''role'', ''user''), (''content'', ''hi'')]]"
  let ?r = "\<lambda>t. Conversation \<lparr>rec_id = Some ''c1'', rec_title = Some ''hi'',
               rec_messages = Some ?m, rec_timestamp = Some t\<rparr>"
  have s1: "save_conversation always_opens ''2024-05-01T10:00:00'' [] (Some ''c1'') ''hi'' ?m
              = Inr [(''c1.json'', Json (?r ''2024-05-01T10:00:00''))]"
    by (simp add: save_conversation_def always_opens_def conv_path_def)
  have s2: "save_conversation always_opens ''2024-05-01T10:00:07''
              [(''c1.json'', Json (?r ''2024-05-01T10:00:00''))] (Some ''c1'') ''hi'' ?m
              = Inr [(''c1.json'', Json (?r ''2024-05-01T10:00:07''))]"
    by (simp add: save_conversation_def always_opens_def conv_path_def)
  have s3: "save_conversation always_opens ''2024-05-01T10:00:00''
              [(''c1.json'', Json (?r ''2024-05-01T10:00:00''))] (Some ''c1'') ''hi'' ?m
              = Inr [(''c1.json'', Json (?r ''2024-05-01T10:00:00''))]"
    by (simp add: save_conversation_def always_opens_def conv_path_def)
  have ne: "''c1'' \<noteq> []" by simp
  have e: "map_of ([] :: directory) (conv_path ''c2'') = None" by simp
  from save_load_round_trip [of "''c1''" always_opens "''2024-05-01T10:00:00''" "[]" "''hi''" ?m
      "[(''c1.json'', Json (?r ''2024-05-01T10:00:00''))]" "''2024-05-01T10:00:07''"
      "[(''c1.json'', Json (?r ''2024-05-01T10:00:07''))]"]
    save_load_round_trip [of "''c1''" always_opens "''2024-05-01T10:00:00''" "[]" "''hi''" ?m
      "[(''c1.json'', Json (?r ''2024-05-01T10:00:00''))]" "''2024-05-01T10:00:00''"
      "[(''c1.json'', Json (?r ''2024-05-01T10:00:00''))]"]
    save_load_round_trip [of "''c2''" always_opens "''x''" "[]" "''t''" "[]" "[]" "''y''" "[]"]
    s1 s2 s3 ne e
  show ?thesis by simp
qed

text \<open>
  The counterexample to C8 as stated (repeated saves of the same state produce the same
  stored record): the same id, title and messages saved at 10:00:00 and again at 10:00:07
  leave a record under \<^verbatim>\<open>c1.json\<close> that differs from the first one, in its timestamp.
\<close>

theorem save_twice_counterexample:
  "save_conversation always_opens ''2024-05-01T10:00:00'' [] (Some ''c1'') ''hi''
       [[(''role'', ''user''), (''content'', ''hi'')]]
     = Inr [(''c1.json'', Json (Conversation \<lparr>rec_id = Some ''c1'', rec_title = Some ''hi'',
               rec_messages = Some [[(''role'', ''user''), (''content'', ''hi'')]],
               rec_timestamp = Some ''2024-05-01T10:00:00''\<rparr>))] \<and>
   save_conversation always_opens ''2024-05-01T10:00:07''
       [(''c1.json'', Json (Conversation \<lparr>rec_id = Some ''c1'', rec_title = Some ''hi'',
               rec_messages = Some [[(''role'', ''user''), (''content'', ''hi'')]],
               rec_timestamp = Some ''2024-05-01T10:00:00''\<rparr>))]
       (Some ''c1'') ''hi'' [[(''role'', ''user''), (''content'', ''hi'')]]
     = Inr [(''c1.json'', Json (Conversation \<lparr>rec_id = Some ''c1'', rec_title = Some ''hi'',
               rec_messages = Some [[(''role'', ''user''), (''content'', ''hi'')]],
               rec_timestamp = Some ''2024-05-01T10:00:07''\<rparr>))] \<and>
   \<lparr>rec_id = Some ''c1'', rec_title = Some ''hi'',
      rec_messages = Some [[(''role'', ''user''), (''content'', ''hi'')]],
      rec_timestamp = Some ''2024-05-01T10:00:07''\<rparr>
   \<noteq> \<lparr>rec_id = Some ''c1'', rec_title = Some ''hi'',
      rec_messages = Some [[(''role'', ''user''), (''content'', ''hi'')]],
      rec_timestamp = Some ''2024-05-01T10:00:00''\<rparr>"
  by (simp add: save_conversation_def always_opens_def conv_path_def)


text \<open>
  C10. \<^verbatim>\<open>save_conversation\<close> with an absent or empty conversation id is a silent no-op:
  it returns normally, whatever the file system would say about opening files, and the
  directory it leaves is the one it found.
\<close>

theorem save_conversation_falsy_id_noop:
  "save_conversation open_w now dir None title msgs = Inr dir \<and>
   save_conversation open_w now dir (Some []) title msgs = Inr dir"
  by (simp add: save_conversation_def)

lemma key_values_conversations:
  "key_values (map Conversation ds) =
     Inr (map (\<lambda>d. PyStr (case rec_timestamp d of None \<Rightarrow> [] | Some t \<Rightarrow> t)) ds)"
  by (induction ds) (auto split: option.splits)

lemma str_keys_strings: "str_keys (map (\<lambda>d. PyStr (f d)) ds) = Some (map f ds)"
  by (induction ds) auto

text \<open>
  What holds of the listing when every file that parses holds a conversation object with
  a string timestamp: it does not raise, and it is the parsed contents of the files named
  \<^verbatim>\<open>*.json\<close> in descending order of the timestamps (\<open>sorted_sort_reverse\<close>,
  \<open>mset_sort_reverse\<close>); files whose read or parse raises are left out.
\<close>

lemma insort_key_pairs:
  "insort_key fst (f x, g x) (map (\<lambda>d. (f d, g d)) xs)
     = map (\<lambda>d. (f d, g d)) (insort_key f x xs)"
  by (induction xs) simp_all

lemma sort_key_pairs:
  "sort_key fst (map (\<lambda>d. (f d, g d)) xs) = map (\<lambda>d. (f d, g d)) (sort_key f xs)"
  by (induction xs) (simp_all add: insort_key_pairs)

lemma sort_reverse_zip:
  "map snd (sort_reverse fst (zip (map f xs) (map g xs))) = map g (sort_reverse f xs)"
proof -
  have z: "zip (map f xs) (map g xs) = map (\<lambda>d. (f d, g d)) xs"
    by (induction xs) simp_all
  have "sort_key fst (rev (map (\<lambda>d. (f d, g d)) xs))
          = map (\<lambda>d. (f d, g d)) (sort_key f (rev xs))"
    by (simp only: rev_map sort_key_pairs)
  then show ?thesis
    by (simp add: sort_reverse_def z rev_map comp_def)
qed

lemma list_conversations_of_conversations:
  assumes "[doc. (name, Json doc) \<leftarrow> dir, glob_json name] = map Conversation ds"
  shows "list_conversations sort_other dir =
           Inr (map Conversation
                  (sort_reverse (\<lambda>d. case rec_timestamp d of None \<Rightarrow> [] | Some t \<Rightarrow> t) ds))"
proof -
  let ?key = "\<lambda>d. case rec_timestamp d of None \<Rightarrow> [] | Some t \<Rightarrow> t"
  have "read_conversations [] (filter (\<lambda>(name, content). glob_json name) dir)
          = map Conversation ds"
    using assms by (simp add: read_conversations_append readable_filter)
  then show ?thesis
    by (simp add: list_conversations_def key_values_conversations
          str_keys_strings [where f = ?key] sort_reverse_zip)
qed

text \<open>
  C7. \<^verbatim>\<open>list_conversations\<close> is to return the readable records newest first and to
  pass over any unreadable or corrupt record. It passes over a file whose read or parse
  raises, but not a file that parses to a value that is no conversation object: the sort
  runs after the loop, outside its \<^verbatim>\<open>try\<close>, and its key function raises on such a
  value. With a saved conversation in \<^verbatim>\<open>a.json\<close> and a file \<^verbatim>\<open>b.json\<close> holding
  \<^verbatim>\<open>[]\<close>, the listing ends with AttributeError and returns nothing; with a
  \<^verbatim>\<open>b.json\<close> that does not parse, it returns the saved conversation.
\<close>

theorem list_conversations_aborts_on_parsed_list:
  "list_conversations sort_other
       [(''a.json'', Json (Conversation (example_record ''a'' ''2024-05-01T10:00:00''))),
        (''b.json'', Json (Other_json (PyList [])))]
     = Inl (Exn ''AttributeError''
              ([CHR 0x27] @ ''list'' @ [CHR 0x27] @ '' object has no attribute ''
                 @ [CHR 0x27] @ ''get'' @ [CHR 0x27])) \<and>
   list_conversations sort_other
       [(''a.json'', Json (Conversation (example_record ''a'' ''2024-05-01T10:00:00''))),
        (''b.json'', Unreadable (Exn ''JSONDecodeError''
                                   ''Expecting value: line 1 column 1 (char 0)''))]
     = Inr [Conversation (example_record ''a'' ''2024-05-01T10:00:00'')]"
  by (simp add: list_conversations_def glob_json_def example_record_def sort_reverse_def)


subsection \<open>Token estimate\<close>

text \<open>
  C9, as amended. The estimate is a function of the text and of the estimator that
  computes it. Without the tokenizer it is the length of the text divided by 4, rounded
  down, and it does not decrease when text is appended. With the tokenizer, it is the
  number of tokens where the tokenizer succeeds and the length divided by 4 where it
  raises; it does not decrease under concatenation when the tokenizer raises on both
  texts, or succeeds on both with a token count that does not decrease.
\<close>

theorem estimate_tokens_monotone_per_estimator:
  "estimate_tokens False encode str = int (length str) div 4 \<and>
   estimate_tokens False encode a \<le> estimate_tokens False encode (a @ b) \<and>
   (encode str = Inl e \<longrightarrow> estimate_tokens avail encode str = int (length str) div 4) \<and>
   (encode str = Inr tokens \<longrightarrow> estimate_tokens True encode str = int (length tokens)) \<and>
   (encode a = Inl e1 \<and> encode (a @ b) = Inl e2 \<longrightarrow>
      estimate_tokens avail encode a \<le> estimate_tokens avail encode (a @ b)) \<and>
   (encode a = Inr ta \<and> encode (a @ b) = Inr tab \<and> length ta \<le> length tab \<longrightarrow>
      estimate_tokens avail encode a \<le> estimate_tokens avail encode (a @ b))"
proof -
  have mono: "int (length a) div 4 \<le> int (length (a @ b)) div 4"
    by (rule zdiv_mono1) simp_all
  show ?thesis
    using mono by (simp add: estimate_tokens_def)
qed

text \<open>
  The witness of C9: the stand-in tokenizer on a text it refuses, on a text it accepts
  and on their extensions.
\<close>

theorem estimate_tokens_monotone_per_estimator_witness:
  "byte_tokenizer ''<|endoftext|>'' = Inl (Exn ''ValueError'' ''Encountered text corresponding to disallowed special token'') \<and>
   estimate_tokens True byte_tokenizer ''<|endoftext|>'' = 3 \<and>
   byte_tokenizer ''hello'' = Inr ''hello'' \<and>
   byte_tokenizer (''hello'' @ '' world'') = Inr ''hello world'' \<and>
   length ''hello'' \<le> length ''hello world'' \<and>
   estimate_tokens True byte_tokenizer ''hello'' = 5 \<and>
   estimate_tokens True byte_tokenizer ''hello'' \<le> estimate_tokens True byte_tokenizer (''hello'' @ '' world'') \<and>
   byte_tokenizer (''<|endoftext|>'' @ ''!'') = Inl (Exn ''ValueError'' ''Encountered text corresponding to disallowed special token'') \<and>
   estimate_tokens True byte_tokenizer ''<|endoftext|>''
     \<le> estimate_tokens True byte_tokenizer (''<|endoftext|>'' @ ''!'')"
proof -
  let ?v = "Exn ''ValueError'' ''Encountered text corresponding to disallowed special token''"
  have e1: "byte_tokenizer ''<|endoftext|>'' = Inl ?v"
    by (simp add: byte_tokenizer_def)
  have e2: "byte_tokenizer (''<|endoftext|>'' @ ''!'') = Inl ?v"
    by (simp add: byte_tokenizer_def)
  have t1: "byte_tokenizer ''hello'' = Inr ''hello''"
    by (simp add: byte_tokenizer_def)
  have t2: "byte_tokenizer (''hello'' @ '' world'') = Inr ''hello world''"
    by (simp add: byte_tokenizer_def)
  note t = estimate_tokens_monotone_per_estimator
  from t [where encode = byte_tokenizer and str = "''<|endoftext|>''" and e = ?v and avail = True]
    e1 have r1: "estimate_tokens True byte_tokenizer ''<|endoftext|>'' = 3"
    by simp
  from t [where encode = byte_tokenizer and str = "''hello''" and tokens = "''hello''"]
    t1 have r2: "estimate_tokens True byte_tokenizer ''hello'' = 5"
    by simp
  from t [where encode = byte_tokenizer and a = "''hello''" and b = "'' world''"
      and ta = "''hello''" and tab = "''hello world''" and avail = True] t1 t2
  have r3: "estimate_tokens True byte_tokenizer ''hello''
              \<le> estimate_tokens True byte_tokenizer (''hello'' @ '' world'')"
    by simp
  from t [where encode = byte_tokenizer and a = "''<|endoftext|>''" and b = "''!''"
      and ?e1.0 = ?v and ?e2.0 = ?v and avail = True] e1 e2
  have r4: "estimate_tokens True byte_tokenizer ''<|endoftext|>''
     \<le> estimate_tokens True byte_tokenizer (''<|endoftext|>'' @ ''!'')"
    by simp
  from e1 e2 t1 t2 r1 r2 r3 r4 show ?thesis by simp
qed

text \<open>
  The counterexample to C9 as stated (the estimate of \<open>a @ b\<close> is at least that of \<open>a\<close>,
  for all strings): the tokenizer counts 31 tokens for a text of 31 characters; with the
  13 characters of a special token appended the tokenizer raises, and the estimate falls
  back to 44 divided by 4.
\<close>

theorem estimate_tokens_concat_counterexample:
  "estimate_tokens True byte_tokenizer ''a b c d e f g h i j k l m n o p'' = 31 \<and>
   estimate_tokens True byte_tokenizer
     (''a b c d e f g h i j k l m n o p'' @ ''<|endoftext|>'') = 11"
  by (simp add: estimate_tokens_def byte_tokenizer_def)

subsection \<open>Conversation title\<close>

lemma find_user_None:
  "find (\<lambda>m. map_of m ''role'' = Some ''user'') msgs = None \<Longrightarrow>
     get_conversation_title msgs = ''New Chat''"
  by (induction msgs) (auto split: if_splits)

lemma title_of_content:
  "(let title = strip (take 40 content);
        title = (if length content > 40 then title @ ''...'' else title)
    in if title = [] then ''New Chat'' else title)
   = (if length content \<le> 40 \<and> strip content = [] then ''New Chat''
      else strip (take 40 content) @ (if 40 < length content then ''...'' else []))"
  by (auto simp: Let_def)

lemma find_user_Some:
  "find (\<lambda>m. map_of m ''role'' = Some ''user'') msgs = Some m \<Longrightarrow>
     content = (case map_of m ''content'' of None \<Rightarrow> [] | Some c \<Rightarrow> c) \<Longrightarrow>
     get_conversation_title msgs =
       (if length content \<le> 40 \<and> strip content = [] then ''New Chat''
        else strip (take 40 content) @ (if 40 < length content then ''...'' else []))"
proof (induction msgs)
  case Nil
  then show ?case by simp
next
  case (Cons a msgs)
  show ?case
  proof (cases "map_of a ''role'' = Some ''user''")
    case True
    with Cons.prems have "a = m" by simp
    with True Cons.prems(2) show ?thesis
      by (auto simp: Let_def)
  next
    case False
    with Cons show ?thesis by simp
  qed
qed


text \<open>
  C5, as amended. When no message has the role \<^verbatim>\<open>user\<close> the title is \<^verbatim>\<open>New Chat\<close>.
  Otherwise the first such message decides, with its content (the empty string when it
  has none): the title is the first 40 characters of the content, stripped of leading and
  trailing whitespace, followed by three full stops exactly when the content is longer
  than 40 characters; except that when this title would be empty (a content of at most 40
  characters, all of them whitespace) the title is \<^verbatim>\<open>New Chat\<close>. An automatic save keeps
  a title other than \<^verbatim>\<open>New Chat\<close> as it is, whatever the messages are, and saves the
  conversation under it.
\<close>

theorem conversation_title_first_user:
  "(find (\<lambda>m. map_of m ''role'' = Some ''user'') msgs = None \<longrightarrow>
      get_conversation_title msgs = ''New Chat'') \<and>
   (find (\<lambda>m. map_of m ''role'' = Some ''user'') msgs = Some m \<and>
    content = (case map_of m ''content'' of None \<Rightarrow> [] | Some c \<Rightarrow> c) \<longrightarrow>
      get_conversation_title msgs =
        (if length content \<le> 40 \<and> strip content = [] then ''New Chat''
         else strip (take 40 content) @ (if 40 < length content then ''...'' else []))) \<and>
   (current_conversation_title s \<noteq> ''New Chat'' \<longrightarrow>
      current_conversation_title
          (fst (auto_save_current_conversation open_w now fresh_id s dir))
        = current_conversation_title s \<and>
      snd (auto_save_current_conversation open_w now fresh_id s dir)
        = save_conversation open_w now dir
            (current_conversation_id
               (fst (auto_save_current_conversation open_w now fresh_id s dir)))
            (current_conversation_title s) (messages s))"
proof (intro conjI impI)
  assume "find (\<lambda>m. map_of m ''role'' = Some ''user'') msgs = None"
  then show "get_conversation_title msgs = ''New Chat''"
    by (rule find_user_None)
next
  assume "find (\<lambda>m. map_of m ''role'' = Some ''user'') msgs = Some m \<and>
    content = (case map_of m ''content'' of None \<Rightarrow> [] | Some c \<Rightarrow> c)"
  then show "get_conversation_title msgs =
        (if length content \<le> 40 \<and> strip content = [] then ''New Chat''
         else strip (take 40 content) @ (if 40 < length content then ''...'' else []))"
    by (intro find_user_Some) simp_all
next
  assume t: "current_conversation_title s \<noteq> ''New Chat''"
  then show "current_conversation_title
          (fst (auto_save_current_conversation open_w now fresh_id s dir))
        = current_conversation_title s"
    by (simp add: auto_save_current_conversation_def Let_def)
  from t show "snd (auto_save_current_conversation open_w now fresh_id s dir)
        = save_conversation open_w now dir
            (current_conversation_id
               (fst (auto_save_current_conversation open_w now fresh_id s dir)))
            (current_conversation_title s) (messages s)"
    by (simp add: auto_save_current_conversation_def Let_def)
qed

text \<open>
  The witness of C5: a conversation with no user message, one whose first user message
  has 55 characters, and an automatic save of a session titled \<^verbatim>\<open>Rome\<close>.
\<close>

theorem conversation_title_first_user_witness:
  "find (\<lambda>m. map_of m ''role'' = Some ''user'') [role_msg ''system'' SYSTEM_PROMPT] = None \<and>
   get_conversation_title [role_msg ''system'' SYSTEM_PROMPT] = ''New Chat'' \<and>
   find (\<lambda>m. map_of m ''role'' = Some ''user'') example_messages
     = Some (role_msg ''user'' ''  Tell me about the history of the Roman Empire, please.'') \<and>
   get_conversation_title example_messages = ''Tell me about the history of the Roman...'' \<and>
   current_conversation_title
       \<lparr>current_conversation_id = Some ''id-1'', current_conversation_title = ''Rome'',
        messages = example_messages\<rparr> \<noteq> ''New Chat'' \<and>
   current_conversation_title
       (fst (auto_save_current_conversation always_opens ''2024-05-01T10:00:00'' ''id-2''
               \<lparr>current_conversation_id = Some ''id-1'', current_conversation_title = ''Rome'',
                messages = example_messages\<rparr> []))
     = ''Rome'' \<and>
   snd (auto_save_current_conversation always_opens ''2024-05-01T10:00:00'' ''id-2''
               \<lparr>current_conversation_id = Some ''id-1'', current_conversation_title = ''Rome'',
                messages = example_messages\<rparr> [])
     = Inr [(''id-1.json'',
             Json (Conversation \<lparr>rec_id = Some ''id-1'', rec_title = Some ''Rome'',
                    rec_messages = Some example_messages,
                    rec_timestamp = Some ''2024-05-01T10:00:00''\<rparr>))]"
proof -
  let ?u = "role_msg ''user'' ''  Tell me about the history of the Roman Empire, please.''"
  let ?s = "\<lparr>current_conversation_id = Some ''id-1'', current_conversation_title = ''Rome'',
             messages = example_messages\<rparr>"
  have f0: "find (\<lambda>m. map_of m ''role'' = Some ''user'') [role_msg ''system'' SYSTEM_PROMPT]
              = None"
    by (simp add: role_msg_def)
  have f1: "find (\<lambda>m. map_of m ''role'' = Some ''user'') example_messages = Some ?u"
    by (simp add: example_messages_def role_msg_def)
  have c: "''  Tell me about the history of the Roman Empire, please.''
             = (case map_of ?u ''content'' of None \<Rightarrow> [] | Some c \<Rightarrow> c)"
    by (simp add: role_msg_def)
  have n: "current_conversation_title ?s \<noteq> ''New Chat''"
    by simp
  have i: "current_conversation_id
             (fst (auto_save_current_conversation always_opens ''2024-05-01T10:00:00'' ''id-2''
                ?s [])) = Some ''id-1''"
    by (simp add: auto_save_current_conversation_def Let_def)
  note t = conversation_title_first_user
  from t [where msgs = "[role_msg ''system'' SYSTEM_PROMPT]"] f0
  have r0: "get_conversation_title [role_msg ''system'' SYSTEM_PROMPT] = ''New Chat''"
    by blast
  from t [where msgs = example_messages and m = ?u
      and content = "''  Tell me about the history of the Roman Empire, please.''"] f1 c
  have r1: "get_conversation_title example_messages
              = ''Tell me about the history of the Roman...''"
    by (simp add: strip_def isspace_def)
  from t [where s = ?s and open_w = always_opens and now = "''2024-05-01T10:00:00''"
      and fresh_id = "''id-2''" and dir = "[]"] n
  have r2: "current_conversation_title
       (fst (auto_save_current_conversation always_opens ''2024-05-01T10:00:00'' ''id-2'' ?s []))
     = ''Rome''"
    and r3: "snd (auto_save_current_conversation always_opens ''2024-05-01T10:00:00'' ''id-2''
               ?s [])
     = save_conversation always_opens ''2024-05-01T10:00:00'' []
         (current_conversation_id
            (fst (auto_save_current_conversation always_opens ''2024-05-01T10:00:00'' ''id-2''
               ?s []))) ''Rome'' example_messages"
    by simp_all
  have r4: "save_conversation always_opens ''2024-05-01T10:00:00'' [] (Some ''id-1'') ''Rome''
              example_messages
     = Inr [(''id-1.json'',
             Json (Conversation \<lparr>rec_id = Some ''id-1'', rec_title = Some ''Rome'',
                    rec_messages = Some example_messages,
                    rec_timestamp = Some ''2024-05-01T10:00:00''\<rparr>))]"
    by (simp add: save_conversation_def always_opens_def conv_path_def)
  from f0 r0 f1 r1 n r2 r3 [unfolded i] r4 show ?thesis by simp
qed

text \<open>
  The counterexample to C5 as stated (the title is the trimmed first 40 characters of the
  first user message): for a first user message with empty content the trimmed prefix is
  empty, and the title is \<^verbatim>\<open>New Chat\<close>.
\<close>

theorem conversation_title_counterexample:
  "get_conversation_title [role_msg ''user'' []] = ''New Chat'' \<and>
   strip (take 40 []) @ (if 40 < length ([] :: string) then ''...'' else []) = []"
  by (simp add: role_msg_def strip_def)

subsection \<open>Sampling settings\<close>

text \<open>
  C6, as amended. \<^verbatim>\<open>load_settings\<close> returns the globals and nothing else: when reading
  or parsing the file raises, the \<^verbatim>\<open>try\<close> block ends with that exception and the
  function drops it. When the settings file is missing, or reading or parsing it raises,
  the globals are left as they were before the call; they are not reset. Called on the
  globals as the module initialises them, the result is therefore mode
  \<^verbatim>\<open>temperature\<close>, temperature 0.9 and no top-p.
\<close>

theorem load_settings_keeps_globals:
  "load_settings None g = g \<and>
   load_settings_try (Inl e) g = (g, Some e) \<and>
   load_settings (Some (Inl e)) g = g \<and>
   load_settings None initial_sampling =
     \<lparr>current_temperature = PyFloat (Finite (9 / 10)), current_top_p = PyNone,
      current_sampling_mode = PyStr ''temperature''\<rparr> \<and>
   load_settings (Some (Inl e)) initial_sampling =
     \<lparr>current_temperature = PyFloat (Finite (9 / 10)), current_top_p = PyNone,
      current_sampling_mode = PyStr ''temperature''\<rparr>"
  by (simp add: load_settings_def load_settings_try_def initial_sampling_def
        DEFAULT_TEMPERATURE_def DEFAULT_TOP_P_def)

text \<open>
  The counterexample to C6 as stated (with the file missing or unparsable the resulting
  configuration is the defaults): on globals that hold top-p mode with top-p 0.5 and
  temperature 0.3, as the settings dialog leaves them, a missing file and a file that
  does not parse both leave these values, none of which is the default.
\<close>

theorem load_settings_not_reset_counterexample:
  "load_settings None
       \<lparr>current_temperature = PyFloat (Finite (3 / 10)),
        current_top_p = PyFloat (Finite (1 / 2)),
        current_sampling_mode = PyStr ''top_p''\<rparr>
     = \<lparr>current_temperature = PyFloat (Finite (3 / 10)),
        current_top_p = PyFloat (Finite (1 / 2)),
        current_sampling_mode = PyStr ''top_p''\<rparr> \<and>
   load_settings (Some (Inl (Exn ''JSONDecodeError'' ''Expecting value: line 1 column 1 (char 0)'')))
       \<lparr>current_temperature = PyFloat (Finite (3 / 10)),
        current_top_p = PyFloat (Finite (1 / 2)),
        current_sampling_mode = PyStr ''top_p''\<rparr>
     = \<lparr>current_temperature = PyFloat (Finite (3 / 10)),
        current_top_p = PyFloat (Finite (1 / 2)),
        current_sampling_mode = PyStr ''top_p''\<rparr> \<and>
   PyFloat (Finite (3 / 10)) \<noteq> DEFAULT_TEMPERATURE \<and>
   PyFloat (Finite (1 / 2)) \<noteq> DEFAULT_TOP_P \<and>
   PyStr ''top_p'' \<noteq> PyStr ''temperature''"
  by (simp add: load_settings_def load_settings_try_def DEFAULT_TEMPERATURE_def
        DEFAULT_TOP_P_def)









subsection \<open>The streaming worker\<close>

lemma stream_loop_eq:
  "stream_loop out sigs deltas = (out @ concat deltas, sigs @ map Text_chunk deltas)"
  by (induction out sigs deltas rule: stream_loop.induct) auto

lemma run_request_fails:
  assumes "build_request fos g (messages_list w @ [role_msg ''user'' user_text]) = Inl e"
  shows "run fos g stream user_text w =
           \<lparr>messages_list = messages_list w @
               [role_msg ''user'' user_text, role_msg ''assistant'' (error_msg e)],
            emitted = emitted w @ [Error (error_msg e)]\<rparr>"
  using assms by (simp add: run_def run_try_def)

lemma run_stream_fails:
  assumes "build_request fos g (messages_list w @ [role_msg ''user'' user_text]) = Inr kwargs"
    and "stream kwargs = (deltas, Some e)"
  shows "run fos g stream user_text w =
           \<lparr>messages_list = messages_list w @
               [role_msg ''user'' user_text, role_msg ''assistant'' (error_msg e)],
            emitted = emitted w @ map Text_chunk deltas @ [Error (error_msg e)]\<rparr>"
  using assms by (simp add: run_def run_try_def stream_loop_eq)

lemma run_stream_completes:
  assumes "build_request fos g (messages_list w @ [role_msg ''user'' user_text]) = Inr kwargs"
    and "stream kwargs = (deltas, None)"
  shows "run fos g stream user_text w =
           \<lparr>messages_list = messages_list w @
               [role_msg ''user'' user_text, role_msg ''assistant'' (final_text (concat deltas))],
            emitted = emitted w @ map Text_chunk deltas @
               [Finished (final_text (concat deltas))]\<rparr>"
  using assms by (simp add: run_def run_try_def stream_loop_eq final_text_def Let_def)

lemma run_shape:
  "\<exists>chunks content terminal.
     run fos g stream user_text w =
       \<lparr>messages_list = messages_list w @
           [role_msg ''user'' user_text, role_msg ''assistant'' content],
        emitted = emitted w @ map Text_chunk chunks @ [terminal]\<rparr> \<and>
     is_terminal terminal \<and>
     chunks = (case build_request fos g (messages_list w @ [role_msg ''user'' user_text]) of
                 Inl e \<Rightarrow> [] | Inr kwargs \<Rightarrow> fst (stream kwargs))"
proof (cases "build_request fos g (messages_list w @ [role_msg ''user'' user_text])")
  case (Inl e)
  from run_request_fails [OF Inl, of stream] Inl show ?thesis
    by (intro exI [of _ "[]"] exI [of _ "error_msg e"] exI [of _ "Error (error_msg e)"]) simp
next
  case (Inr kwargs)
  obtain deltas ending where s: "stream kwargs = (deltas, ending)"
    by (cases "stream kwargs")
  show ?thesis
  proof (cases ending)
    case None
    from run_stream_completes [where stream = stream, OF Inr s [unfolded None]] Inr s show ?thesis
      by (intro exI [of _ deltas] exI [of _ "final_text (concat deltas)"]
            exI [of _ "Finished (final_text (concat deltas))"]) simp
  next
    case (Some e)
    from run_stream_fails [where stream = stream, OF Inr s [unfolded Some]] Inr s show ?thesis
      by (intro exI [of _ deltas] exI [of _ "error_msg e"] exI [of _ "Error (error_msg e)"]) simp
  qed
qed


lemma system_contents_ok:
  assumes "\<forall>m\<in>set msgs. map_of m ''role'' \<noteq> None \<and>
             (map_of m ''role'' = Some ''system'' \<longrightarrow> map_of m ''content'' \<noteq> None)"
  shows "\<exists>contents. system_contents msgs = Inr contents"
  using assms by (induction msgs) auto

lemma user_assistant_ok:
  assumes "\<forall>m\<in>set msgs. map_of m ''role'' \<noteq> None"
  shows "user_assistant msgs =
           Inr (filter (\<lambda>m. map_of m ''role'' = Some ''user'' \<or>
                            map_of m ''role'' = Some ''assistant'') msgs)"
  using assms by (induction msgs) auto

lemma kw_messages_create_args:
  "kw_messages (create_args fos g model_name system convo) = convo"
  by (auto simp: create_args_def Let_def split: prod.splits)

lemma build_request_ok:
  assumes "\<forall>m\<in>set msgs. map_of m ''role'' \<noteq> None \<and>
             (map_of m ''role'' = Some ''system'' \<longrightarrow> map_of m ''content'' \<noteq> None)"
  shows "\<exists>kwargs. build_request fos g msgs = Inr kwargs \<and>
           kw_messages kwargs =
             filter (\<lambda>m. map_of m ''role'' = Some ''user'' \<or>
                          map_of m ''role'' = Some ''assistant'') msgs"
proof -
  from system_contents_ok [OF assms] obtain contents
    where c: "system_contents msgs = Inr contents" ..
  from assms have "\<forall>m\<in>set msgs. map_of m ''role'' \<noteq> None"
    by blast
  from user_assistant_ok [OF this] c show ?thesis
    by (simp add: build_request_def Let_def kw_messages_create_args)
qed

lemma build_request_with_user:
  assumes "\<forall>m\<in>set msgs. map_of m ''role'' \<noteq> None \<and>
             (map_of m ''role'' = Some ''system'' \<longrightarrow> map_of m ''content'' \<noteq> None)"
  shows "\<exists>kwargs. build_request fos g (msgs @ [role_msg ''user'' user_text]) = Inr kwargs \<and>
           kw_messages kwargs =
             filter (\<lambda>m. map_of m ''role'' = Some ''user'' \<or>
                          map_of m ''role'' = Some ''assistant'') msgs
             @ [role_msg ''user'' user_text]"
proof -
  from assms have "\<forall>m\<in>set (msgs @ [role_msg ''user'' user_text]).
      map_of m ''role'' \<noteq> None \<and>
      (map_of m ''role'' = Some ''system'' \<longrightarrow> map_of m ''content'' \<noteq> None)"
    by (auto simp: role_msg_def)
  from build_request_ok [OF this, of fos g] show ?thesis
    by (simp add: role_msg_def)
qed

lemma example_request_built:
  "build_request float_of_str_example initial_sampling
       (messages_list (StreamWorker [role_msg ''system'' SYSTEM_PROMPT]) @ [role_msg ''user'' ''hi''])
     = Inr example_request"
  by (simp add: build_request_def StreamWorker_def role_msg_def create_args_def
        sanitize_sampling_def clamp_def py_max_def py_min_def initial_sampling_def
        DEFAULT_TEMPERATURE_def DEFAULT_TOP_P_def example_request_def SYSTEM_PROMPT_def)

text \<open>
  C1. Every run appends to the message list the user message and, right after it,
  exactly one message of role \<^verbatim>\<open>assistant\<close>. When building the request raises, or the
  backend raises before, between or after its deltas, that message is the error
  descriptor \<^verbatim>\<open>(API error: <type>: <message>)\<close> of the exception, and the signals
  emitted are the chunks delivered so far followed by one \<^verbatim>\<open>error\<close> signal carrying
  the descriptor.
\<close>

theorem run_failure_appends_error:
  "(\<exists>content. messages_list (run fos g stream user_text w) =
      messages_list w @ [role_msg ''user'' user_text, role_msg ''assistant'' content]) \<and>
   (build_request fos g (messages_list w @ [role_msg ''user'' user_text]) = Inl e \<longrightarrow>
      run fos g stream user_text w =
        \<lparr>messages_list = messages_list w @
            [role_msg ''user'' user_text, role_msg ''assistant'' (error_msg e)],
         emitted = emitted w @ [Error (error_msg e)]\<rparr>) \<and>
   (build_request fos g (messages_list w @ [role_msg ''user'' user_text]) = Inr kwargs \<and>
    stream kwargs = (deltas, Some e) \<longrightarrow>
      run fos g stream user_text w =
        \<lparr>messages_list = messages_list w @
            [role_msg ''user'' user_text, role_msg ''assistant'' (error_msg e)],
         emitted = emitted w @ map Text_chunk deltas @ [Error (error_msg e)]\<rparr>) \<and>
   error_msg e = ''(API error: '' @ exn_type e @ '': '' @ exn_str e @ '')''"
proof (intro conjI impI)
  from run_shape [of fos g stream user_text w]
  obtain chunks content terminal where
    "run fos g stream user_text w =
       \<lparr>messages_list = messages_list w @
           [role_msg ''user'' user_text, role_msg ''assistant'' content],
        emitted = emitted w @ map Text_chunk chunks @ [terminal]\<rparr>"
    by blast
  then have "messages_list (run fos g stream user_text w) =
      messages_list w @ [role_msg ''user'' user_text, role_msg ''assistant'' content]"
    by simp
  then show "\<exists>content. messages_list (run fos g stream user_text w) =
      messages_list w @ [role_msg ''user'' user_text, role_msg ''assistant'' content]" ..
next
  assume "build_request fos g (messages_list w @ [role_msg ''user'' user_text]) = Inl e"
  then show "run fos g stream user_text w =
        \<lparr>messages_list = messages_list w @
            [role_msg ''user'' user_text, role_msg ''assistant'' (error_msg e)],
         emitted = emitted w @ [Error (error_msg e)]\<rparr>"
    by (rule run_request_fails)
next
  assume "build_request fos g (messages_list w @ [role_msg ''user'' user_text]) = Inr kwargs \<and>
    stream kwargs = (deltas, Some e)"
  then show "run fos g stream user_text w =
        \<lparr>messages_list = messages_list w @
            [role_msg ''user'' user_text, role_msg ''assistant'' (error_msg e)],
         emitted = emitted w @ map Text_chunk deltas @ [Error (error_msg e)]\<rparr>"
    by (intro run_stream_fails [where kwargs = kwargs]) simp_all
next
  show "error_msg e = ''(API error: '' @ exn_type e @ '': '' @ exn_str e @ '')''"
    by (simp add: error_msg_def)
qed

text \<open>
  The witness of C1: a backend that raises after the delta \<^verbatim>\<open>Hel\<close>, and a message list
  holding a message without a role, on which building the request raises KeyError.
\<close>

theorem run_failure_appends_error_witness:
  "build_request float_of_str_example initial_sampling
       (messages_list (StreamWorker [role_msg ''system'' SYSTEM_PROMPT]) @ [role_msg ''user'' ''hi''])
     = Inr example_request \<and>
   failing_stream example_request
     = ([''Hel''], Some (Exn ''APIConnectionError'' ''Connection error.'')) \<and>
   run float_of_str_example initial_sampling failing_stream ''hi''
       (StreamWorker [role_msg ''system'' SYSTEM_PROMPT])
     = \<lparr>messages_list =
          [role_msg ''system'' SYSTEM_PROMPT, role_msg ''user'' ''hi'',
           role_msg ''assistant'' ''(API error: APIConnectionError: Connection error.)''],
        emitted = [Text_chunk ''Hel'',
                   Error ''(API error: APIConnectionError: Connection error.)'']\<rparr> \<and>
   build_request float_of_str_example initial_sampling
       (messages_list (StreamWorker [[(''content'', ''no role'')]]) @ [role_msg ''user'' ''hi''])
     = Inl (KeyError ''role'') \<and>
   run float_of_str_example initial_sampling failing_stream ''hi''
       (StreamWorker [[(''content'', ''no role'')]])
     = \<lparr>messages_list =
          [[(''content'', ''no role'')], role_msg ''user'' ''hi'',
           role_msg ''assistant'' (''(API error: KeyError: '' @ [CHR 0x27] @ ''role'' @ [CHR 0x27] @ '')'')],
        emitted = [Error (''(API error: KeyError: '' @ [CHR 0x27] @ ''role'' @ [CHR 0x27] @ '')'')]\<rparr>"
proof -
  let ?w = "StreamWorker [role_msg ''system'' SYSTEM_PROMPT]"
  let ?w' = "StreamWorker [[(''content'', ''no role'')]]"
  let ?e = "Exn ''APIConnectionError'' ''Connection error.''"
  have f: "failing_stream example_request = ([''Hel''], Some ?e)"
    by (simp add: failing_stream_def)
  have k: "build_request float_of_str_example initial_sampling
       (messages_list ?w' @ [role_msg ''user'' ''hi'']) = Inl (KeyError ''role'')"
    by (simp add: build_request_def StreamWorker_def role_msg_def)
  note t = run_failure_appends_error
  from t [where fos = float_of_str_example and g = initial_sampling and stream = failing_stream
      and user_text = "''hi''" and w = ?w and kwargs = example_request and deltas = "[''Hel'']"
      and e = ?e] example_request_built f
  have r1: "run float_of_str_example initial_sampling failing_stream ''hi'' ?w
     = \<lparr>messages_list = messages_list ?w @
            [role_msg ''user'' ''hi'', role_msg ''assistant'' (error_msg ?e)],
         emitted = emitted ?w @ map Text_chunk [''Hel''] @ [Error (error_msg ?e)]\<rparr>"
    by blast
  from t [where fos = float_of_str_example and g = initial_sampling and stream = failing_stream
      and user_text = "''hi''" and w = ?w' and e = "KeyError ''role''"] k
  have r2: "run float_of_str_example initial_sampling failing_stream ''hi'' ?w'
     = \<lparr>messages_list = messages_list ?w' @
            [role_msg ''user'' ''hi'', role_msg ''assistant'' (error_msg (KeyError ''role''))],
         emitted = emitted ?w' @ [Error (error_msg (KeyError ''role''))]\<rparr>"
    by blast
  from example_request_built f k r1 r2 show ?thesis
    by (simp add: StreamWorker_def error_msg_def KeyError_def)
qed

text \<open>
  C2. The signals that one run emits are a \<^verbatim>\<open>text_chunk\<close> for each delta the backend
  produced, in the backend's order (none when the request could not be built), followed
  by one terminal signal, \<^verbatim>\<open>finished\<close> or \<^verbatim>\<open>error\<close>, and nothing after it; a worker
  that starts with nothing emitted ends with exactly one terminal signal.
\<close>

theorem run_one_terminal_signal:
  "(\<exists>chunks terminal.
      emitted (run fos g stream user_text w) =
        emitted w @ map Text_chunk chunks @ [terminal] \<and>
      is_terminal terminal \<and>
      chunks = (case build_request fos g (messages_list w @ [role_msg ''user'' user_text]) of
                  Inl e \<Rightarrow> [] | Inr kwargs \<Rightarrow> fst (stream kwargs))) \<and>
   length (filter is_terminal (emitted (run fos g stream user_text (StreamWorker msgs)))) = 1"
proof
  from run_shape [of fos g stream user_text w]
  obtain chunks content terminal where
    r: "run fos g stream user_text w =
       \<lparr>messages_list = messages_list w @
           [role_msg ''user'' user_text, role_msg ''assistant'' content],
        emitted = emitted w @ map Text_chunk chunks @ [terminal]\<rparr>"
    and t: "is_terminal terminal"
    and c: "chunks =
      (case build_request fos g (messages_list w @ [role_msg ''user'' user_text]) of
         Inl e \<Rightarrow> [] | Inr kwargs \<Rightarrow> fst (stream kwargs))"
    by blast
  from r have "emitted (run fos g stream user_text w) =
        emitted w @ map Text_chunk chunks @ [terminal]"
    by simp
  with t c show "\<exists>chunks terminal.
      emitted (run fos g stream user_text w) =
        emitted w @ map Text_chunk chunks @ [terminal] \<and>
      is_terminal terminal \<and>
      chunks = (case build_request fos g (messages_list w @ [role_msg ''user'' user_text]) of
                  Inl e \<Rightarrow> [] | Inr kwargs \<Rightarrow> fst (stream kwargs))"
    by blast
next
  from run_shape [of fos g stream user_text "StreamWorker msgs"]
  obtain chunks content terminal where
    r: "run fos g stream user_text (StreamWorker msgs) =
       \<lparr>messages_list = messages_list (StreamWorker msgs) @
           [role_msg ''user'' user_text, role_msg ''assistant'' content],
        emitted = emitted (StreamWorker msgs) @ map Text_chunk chunks @ [terminal]\<rparr>"
    and t: "is_terminal terminal"
    by blast
  have "filter is_terminal (map Text_chunk chunks) = []"
    by (induction chunks) simp_all
  with r t show
    "length (filter is_terminal (emitted (run fos g stream user_text (StreamWorker msgs)))) = 1"
    by (simp add: StreamWorker_def)
qed

text \<open>
  C3. On a message list in which every message has a role, and every system message a
  content: with the user text \<^verbatim>\<open>hi\<close> and a backend that yields \<^verbatim>\<open>Hel\<close>, \<^verbatim>\<open>lo\<close> and
  ends, the run emits the two chunks and \<^verbatim>\<open>finished\<close> with \<^verbatim>\<open>Hello\<close>, and the list
  grows by the user message \<^verbatim>\<open>hi\<close> and the assistant message \<^verbatim>\<open>Hello\<close>, in this
  order. For any user text the request is built, its messages end with the new user
  message, so the message is in the list before the backend is called; and whenever the
  backend's stream for that request ends normally, the assistant message and the
  \<^verbatim>\<open>finished\<close> signal carry the concatenated deltas, or \<^verbatim>\<open>(Empty response)\<close> when the
  concatenation is empty.
\<close>

theorem run_turn_success:
  assumes "\<forall>m\<in>set (messages_list w). map_of m ''role'' \<noteq> None \<and>
             (map_of m ''role'' = Some ''system'' \<longrightarrow> map_of m ''content'' \<noteq> None)"
  shows "run fos g (\<lambda>kwargs. ([''Hel'', ''lo''], None)) ''hi'' w =
           \<lparr>messages_list = messages_list w @
               [role_msg ''user'' ''hi'', role_msg ''assistant'' ''Hello''],
            emitted = emitted w @ [Text_chunk ''Hel'', Text_chunk ''lo'', Finished ''Hello'']\<rparr> \<and>
         (\<exists>kwargs.
            build_request fos g (messages_list w @ [role_msg ''user'' user_text]) = Inr kwargs \<and>
            kw_messages kwargs =
              filter (\<lambda>m. map_of m ''role'' = Some ''user'' \<or>
                           map_of m ''role'' = Some ''assistant'') (messages_list w)
              @ [role_msg ''user'' user_text] \<and>
            (\<forall>deltas. stream kwargs = (deltas, None) \<longrightarrow>
               run fos g stream user_text w =
                 \<lparr>messages_list = messages_list w @
                     [role_msg ''user'' user_text,
                      role_msg ''assistant''
                        (if concat deltas = [] then ''(Empty response)'' else concat deltas)],
                  emitted = emitted w @ map Text_chunk deltas @
                     [Finished
                        (if concat deltas = [] then ''(Empty response)'' else concat deltas)]\<rparr>))"
proof
  from build_request_with_user [OF assms, of fos g "''hi''"] obtain kwargs
    where "build_request fos g (messages_list w @ [role_msg ''user'' ''hi'']) = Inr kwargs"
    by blast
  from run_stream_completes [where stream = "\<lambda>kwargs. ([''Hel'', ''lo''], None)", OF this]
  show "run fos g (\<lambda>kwargs. ([''Hel'', ''lo''], None)) ''hi'' w =
           \<lparr>messages_list = messages_list w @
               [role_msg ''user'' ''hi'', role_msg ''assistant'' ''Hello''],
            emitted = emitted w @ [Text_chunk ''Hel'', Text_chunk ''lo'', Finished ''Hello'']\<rparr>"
    by (simp add: final_text_def)
next
  from build_request_with_user [OF assms, of fos g user_text] obtain kwargs
    where b: "build_request fos g (messages_list w @ [role_msg ''user'' user_text]) = Inr kwargs"
      and k: "kw_messages kwargs =
              filter (\<lambda>m. map_of m ''role'' = Some ''user'' \<or>
                           map_of m ''role'' = Some ''assistant'') (messages_list w)
              @ [role_msg ''user'' user_text]"
    by blast
  have "\<forall>deltas. stream kwargs = (deltas, None) \<longrightarrow>
               run fos g stream user_text w =
                 \<lparr>messages_list = messages_list w @
                     [role_msg ''user'' user_text,
                      role_msg ''assistant''
                        (if concat deltas = [] then ''(Empty response)'' else concat deltas)],
                  emitted = emitted w @ map Text_chunk deltas @
                     [Finished
                        (if concat deltas = [] then ''(Empty response)'' else concat deltas)]\<rparr>"
    using run_stream_completes [where stream = stream, OF b]
    by (simp add: final_text_def)
  with b k show "\<exists>kwargs.
            build_request fos g (messages_list w @ [role_msg ''user'' user_text]) = Inr kwargs \<and>
            kw_messages kwargs =
              filter (\<lambda>m. map_of m ''role'' = Some ''user'' \<or>
                           map_of m ''role'' = Some ''assistant'') (messages_list w)
              @ [role_msg ''user'' user_text] \<and>
            (\<forall>deltas. stream kwargs = (deltas, None) \<longrightarrow>
               run fos g stream user_text w =
                 \<lparr>messages_list = messages_list w @
                     [role_msg ''user'' user_text,
                      role_msg ''assistant''
                        (if concat deltas = [] then ''(Empty response)'' else concat deltas)],
                  emitted = emitted w @ map Text_chunk deltas @
                     [Finished
                        (if concat deltas = [] then ''(Empty response)'' else concat deltas)]\<rparr>)"
    by blast
qed


text \<open>
  The witness of C3: a new chat, holding the system prompt only, with the backend of the
  claim and with a backend that ends without a delta.
\<close>

theorem run_turn_success_witness:
  "map_of (role_msg ''system'' SYSTEM_PROMPT) ''role'' \<noteq> None \<and>
   map_of (role_msg ''system'' SYSTEM_PROMPT) ''content'' \<noteq> None \<and>
   run float_of_str_example initial_sampling (\<lambda>kwargs. ([''Hel'', ''lo''], None)) ''hi''
       (StreamWorker [role_msg ''system'' SYSTEM_PROMPT])
     = \<lparr>messages_list =
          [role_msg ''system'' SYSTEM_PROMPT, role_msg ''user'' ''hi'',
           role_msg ''assistant'' ''Hello''],
        emitted = [Text_chunk ''Hel'', Text_chunk ''lo'', Finished ''Hello'']\<rparr> \<and>
   build_request float_of_str_example initial_sampling
       (messages_list (StreamWorker [role_msg ''system'' SYSTEM_PROMPT]) @ [role_msg ''user'' ''hi''])
     = Inr example_request \<and>
   kw_messages example_request = [role_msg ''user'' ''hi''] \<and>
   run float_of_str_example initial_sampling (\<lambda>kwargs. ([], None)) ''hi''
       (StreamWorker [role_msg ''system'' SYSTEM_PROMPT])
     = \<lparr>messages_list =
          [role_msg ''system'' SYSTEM_PROMPT, role_msg ''user'' ''hi'',
           role_msg ''assistant'' ''(Empty response)''],
        emitted = [Finished ''(Empty response)'']\<rparr>"
proof -
  let ?w = "StreamWorker [role_msg ''system'' SYSTEM_PROMPT]"
  have r: "map_of (role_msg ''system'' SYSTEM_PROMPT) ''role'' \<noteq> None"
    and c: "map_of (role_msg ''system'' SYSTEM_PROMPT) ''content'' \<noteq> None"
    by (simp_all add: role_msg_def)
  from r c have h: "\<forall>m\<in>set (messages_list ?w).
      map_of m ''role'' \<noteq> None \<and>
      (map_of m ''role'' = Some ''system'' \<longrightarrow> map_of m ''content'' \<noteq> None)"
    by (simp add: StreamWorker_def)
  note t = run_turn_success [OF h, of float_of_str_example initial_sampling]
  from t [THEN conjunct1]
  have r1: "run float_of_str_example initial_sampling (\<lambda>kwargs. ([''Hel'', ''lo''], None)) ''hi'' ?w
     = \<lparr>messages_list =
          [role_msg ''system'' SYSTEM_PROMPT, role_msg ''user'' ''hi'',
           role_msg ''assistant'' ''Hello''],
        emitted = [Text_chunk ''Hel'', Text_chunk ''lo'', Finished ''Hello'']\<rparr>"
    by (simp add: StreamWorker_def)
  from t [THEN conjunct2, of "''hi''" "\<lambda>kwargs. ([], None)"] obtain kwargs where
    b: "build_request float_of_str_example initial_sampling
          (messages_list ?w @ [role_msg ''user'' ''hi'']) = Inr kwargs"
    and e: "\<forall>deltas. (\<lambda>kwargs. ([], None)) kwargs = (deltas, None) \<longrightarrow>
               run float_of_str_example initial_sampling (\<lambda>kwargs. ([], None)) ''hi'' ?w =
                 \<lparr>messages_list = messages_list ?w @
                     [role_msg ''user'' ''hi'',
                      role_msg ''assistant''
                        (if concat deltas = [] then ''(Empty response)'' else concat deltas)],
                  emitted = emitted ?w @ map Text_chunk deltas @
                     [Finished
                        (if concat deltas = [] then ''(Empty response)'' else concat deltas)]\<rparr>"
    by blast
  from e [rule_format, of "[]"]
  have r2: "run float_of_str_example initial_sampling (\<lambda>kwargs. ([], None)) ''hi'' ?w
     = \<lparr>messages_list =
          [role_msg ''system'' SYSTEM_PROMPT, role_msg ''user'' ''hi'',
           role_msg ''assistant'' ''(Empty response)''],
        emitted = [Finished ''(Empty response)'']\<rparr>"
    by (simp add: StreamWorker_def)
  have k: "kw_messages example_request = [role_msg ''user'' ''hi'']"
    by (simp add: example_request_def)
  from r c r1 example_request_built k r2 show ?thesis by simp
qed

end
